theory Spec2Isabelle
  imports Complex_Main "HOL-Library.Sublist" "HOL-Library.AList"
begin

section \<open>Python values used by the two converters\<close>

text \<open>
  The exceptions the two scripts can meet. Each raise of the source is an \<open>Inl\<close> of
  the model. \<open>KeyError_int\<close> is the \<open>KeyError\<close> of an int key.
\<close>

datatype error =
    KeyError string
  | KeyError_int nat
  | IndexError
  | TypeError
  | ValueError
  | AttributeError
  | ZeroDivisionError
  | IOError
  | JSONDecodeError
  | XMLSyntaxError

text \<open>
  A Python number is an unbounded \<open>int\<close> or a \<open>float\<close>. Floats are modelled as
  reals: rounding, infinities and NaN are outside the model.
\<close>

datatype pynum = PInt int | PFloat real

fun num_val :: "pynum \<Rightarrow> real" where
  "num_val (PInt n) = of_int n"
| "num_val (PFloat r) = r"

text \<open>\<open>w * v\<close> for an int \<open>w\<close>: an int times an int is an int, otherwise a float.\<close>

fun int_mul :: "int \<Rightarrow> pynum \<Rightarrow> pynum" where
  "int_mul w (PInt n) = PInt (w * n)"
| "int_mul w (PFloat r) = PFloat (of_int w * r)"

text \<open>\<open>int(v)\<close> on a number truncates towards zero.\<close>

fun py_trunc :: "pynum \<Rightarrow> int" where
  "py_trunc (PInt n) = n"
| "py_trunc (PFloat r) = (if 0 \<le> r then \<lfloor>r\<rfloor> else \<lceil>r\<rceil>)"

text \<open>
  The builtins \<open>min(a, b, c, d)\<close> and \<open>max(a, b, c, d)\<close>: the first argument is the
  candidate, and a later argument replaces it only when strictly smaller (larger).
\<close>

definition min2 :: "pynum \<Rightarrow> pynum \<Rightarrow> pynum" where
  "min2 best item = (if num_val item < num_val best then item else best)"

definition max2 :: "pynum \<Rightarrow> pynum \<Rightarrow> pynum" where
  "max2 best item = (if num_val item > num_val best then item else best)"

fun py_min :: "pynum list \<Rightarrow> error + pynum" where
  "py_min [] = Inl TypeError"
| "py_min (x # xs) = Inr (foldl min2 x xs)"

fun py_max :: "pynum list \<Rightarrow> error + pynum" where
  "py_max [] = Inl TypeError"
| "py_max (x # xs) = Inr (foldl max2 x xs)"

text \<open>
  The value \<open>json.loads\<close> returns. An object is the list of its items; its keys are
  distinct.
\<close>

datatype json =
    JNull
  | JBool bool
  | JNum pynum
  | JStr string
  | JArr "json list"
  | JObj "(string \<times> json) list"

text \<open>Sequencing of steps that may raise.\<close>

fun bind :: "error + 'a \<Rightarrow> ('a \<Rightarrow> error + 'b) \<Rightarrow> error + 'b" where
  "bind (Inl e) f = Inl e"
| "bind (Inr x) f = f x"

fun mapM :: "('a \<Rightarrow> error + 'b) \<Rightarrow> 'a list \<Rightarrow> error + 'b list" where
  "mapM f [] = Inr []"
| "mapM f (x # xs) = bind (f x) (\<lambda>y. bind (mapM f xs) (\<lambda>ys. Inr (y # ys)))"

text \<open>\<open>v[k]\<close> for a string key \<open>k\<close>.\<close>

fun getkey :: "json \<Rightarrow> string \<Rightarrow> error + json" where
  "getkey (JObj kvs) k = (case map_of kvs k of None \<Rightarrow> Inl (KeyError k) | Some v \<Rightarrow> Inr v)"
| "getkey _ k = Inl TypeError"

text \<open>\<open>v[i]\<close> for an index \<open>i \<ge> 0\<close>. An object parsed from JSON has no integer key.\<close>

fun getidx :: "json \<Rightarrow> nat \<Rightarrow> error + json" where
  "getidx (JArr xs) i = (if i < length xs then Inr (xs ! i) else Inl IndexError)"
| "getidx (JStr s) i = (if i < length s then Inr (JStr [s ! i]) else Inl IndexError)"
| "getidx (JObj kvs) i = Inl (KeyError_int i)"
| "getidx _ i = Inl TypeError"

text \<open>\<open>len(v)\<close>.\<close>

fun py_len :: "json \<Rightarrow> error + nat" where
  "py_len (JArr xs) = Inr (length xs)"
| "py_len (JObj kvs) = Inr (length kvs)"
| "py_len (JStr s) = Inr (length s)"
| "py_len _ = Inl TypeError"

text \<open>
  A coordinate read from the JSON. A JSON number is itself; a boolean is the int 0 or
  1, as in Python. The scripts are written for numeric coordinates: where a line
  carries a string or an array in a coordinate position the model answers
  \<open>TypeError\<close> and does not follow Python's sequence arithmetic.
\<close>

fun as_num :: "json \<Rightarrow> error + pynum" where
  "as_num (JNum n) = Inr n"
| "as_num (JBool b) = Inr (PInt (if b then 1 else 0))"
| "as_num _ = Inl TypeError"

section \<open>dataturks_to_PascalVOC: the box of one annotation entry\<close>

text \<open>
  \<open>[points[0][j], points[1][j], points[2][j], points[3][j]]\<close>, the arguments of one
  \<open>min\<close> or \<open>max\<close> call: all four are read, left to right, before the call
  compares them as numbers.
\<close>

definition points_column :: "json \<Rightarrow> nat \<Rightarrow> error + pynum list" where
  "points_column pts j =
     bind (mapM (\<lambda>i. bind (getidx pts i) (\<lambda>p. getidx p j)) [0, 1, 2, 3]) (mapM as_num)"

text \<open>\<open>int(points[i][k] * scale)\<close> of the two-point branch.\<close>

definition ocr_coord :: "json \<Rightarrow> nat \<Rightarrow> string \<Rightarrow> int \<Rightarrow> error + pynum" where
  "ocr_coord pts i k scale =
     bind (getidx pts i) (\<lambda>p. bind (getkey p k) (\<lambda>v. bind (as_num v) (\<lambda>n.
       Inr (PInt (py_trunc (int_mul scale n))))))"

text \<open>
  Lines 49 to 66 of \<open>get_xml_for_bbx\<close>: the box \<open>(xmin, ymin, xmax, ymax)\<close>, in the
  order the source computes it. Any number of points other than four takes the
  second branch.
\<close>

definition get_xml_for_bbx_box ::
  "json \<Rightarrow> int \<Rightarrow> int \<Rightarrow> error + (pynum \<times> pynum \<times> pynum \<times> pynum)" where
  "get_xml_for_bbx_box bbx_data width height =
     bind (getkey bbx_data ''points'') (\<lambda>pts. bind (py_len pts) (\<lambda>n.
       if n = 4 then
         bind (bind (points_column pts 0) py_min) (\<lambda>mx.
         bind (bind (points_column pts 1) py_min) (\<lambda>my.
         bind (bind (points_column pts 0) py_max) (\<lambda>Mx.
         bind (bind (points_column pts 1) py_max) (\<lambda>My.
           Inr (int_mul width mx, int_mul height my, int_mul width Mx, int_mul height My)))))
       else
         bind (ocr_coord pts 0 ''x'' width) (\<lambda>xmin.
         bind (ocr_coord pts 0 ''y'' height) (\<lambda>ymin.
         bind (ocr_coord pts 1 ''x'' width) (\<lambda>xmax.
         bind (ocr_coord pts 1 ''y'' height) (\<lambda>ymax.
           Inr (xmin, ymin, xmax, ymax)))))))"

text \<open>A point written as a JSON pair \<open>[x, y]\<close>, and one written as \<open>{"x": x, "y": y}\<close>.\<close>

definition pair_point :: "pynum \<Rightarrow> pynum \<Rightarrow> json" where
  "pair_point x y = JArr [JNum x, JNum y]"


section \<open>Strings and paths\<close>

definition nl :: string where
  "nl = [CHR 0x0A]"

definition tab :: string where
  "tab = [CHR 0x09]"

text \<open>\<open>str(n)\<close> for an int: decimal digits, with a minus sign when negative.\<close>

definition digit_char :: "nat \<Rightarrow> char" where
  "digit_char d = ''0123456789'' ! d"

fun str_nat :: "nat \<Rightarrow> string" where
  "str_nat n = (if n < 10 then [digit_char n] else str_nat (n div 10) @ [digit_char (n mod 10)])"

declare str_nat.simps [simp del]

definition str_int :: "int \<Rightarrow> string" where
  "str_int i = (if i < 0 then CHR ''-'' # str_nat (nat (- i)) else str_nat (nat i))"

text \<open>
  \<open>str(v)\<close> for a number. The text of a float is Python's \<open>repr\<close>, which the model
  takes as the parameter \<open>float_repr\<close>.
\<close>

fun py_str :: "(real \<Rightarrow> string) \<Rightarrow> pynum \<Rightarrow> string" where
  "py_str float_repr (PInt n) = str_int n"
| "py_str float_repr (PFloat r) = float_repr r"

text \<open>\<open>s.split(sep)[0]\<close>: the text before the first occurrence of \<open>sep\<close>.\<close>

fun split_first :: "string \<Rightarrow> string \<Rightarrow> string" where
  "split_first sep [] = []"
| "split_first sep (c # cs) = (if prefix sep (c # cs) then [] else c # split_first sep cs)"

text \<open>
  \<open>s.replace(old, new)\<close> for a non-empty \<open>old\<close>: every occurrence, left to right,
  without overlap.
\<close>

function py_replace :: "string \<Rightarrow> string \<Rightarrow> string \<Rightarrow> string" where
  "py_replace old new [] = []"
| "py_replace old new (c # cs) =
     (if old \<noteq> [] \<and> prefix old (c # cs)
      then new @ py_replace old new (drop (length old) (c # cs))
      else c # py_replace old new cs)"
  by pat_completeness auto
termination
  by (relation "measure (\<lambda>(old, new, s). length s)") auto

text \<open>\<open>s.split("/")[-1]\<close>: the text after the last slash.\<close>

definition last_segment :: "string \<Rightarrow> string" where
  "last_segment s = rev (takeWhile (\<lambda>c. c \<noteq> CHR ''/'') (rev s))"

text \<open>\<open>os.path.join(a, b)\<close> on a POSIX system.\<close>

definition path_join :: "string \<Rightarrow> string \<Rightarrow> string" where
  "path_join a b =
     (if b \<noteq> [] \<and> hd b = CHR ''/'' then b
      else if a = [] \<or> last a = CHR ''/'' then a @ b
      else a @ ''/'' @ b)"

section \<open>XML documents\<close>

text \<open>
  An element as \<open>lxml\<close> holds it: its tag, the text before its first child, its
  children, and the text that follows its end tag (its tail). \<open>render\<close> is the text
  of the element; parsing that text gives the element back when no text or tail
  holds a markup character.
\<close>

datatype xml = Element (tag: string) (elem_text: string) (children: "xml list") (tail: string)

fun render :: "xml \<Rightarrow> string" where
  "render (Element t txt cs after) =
     ''<'' @ t @ ''>'' @ txt @ concat (map render cs) @ ''</'' @ t @ ''>'' @ after"

section \<open>dataturks_to_PascalVOC: one labelled item to one XML file\<close>

text \<open>
  What the script reads from its surroundings: \<open>json.loads\<close> (\<open>None\<close> when it
  raises), the size of the image \<open>Image.open\<close> finds at a path (\<open>None\<close> when it
  raises), whether a file can be written at a path, the text of a float, whether a
  path is a directory, and the lines of a file (\<open>None\<close> when the path does not
  exist).
\<close>

record voc_env =
  loads :: "string \<Rightarrow> json option"
  image_size :: "string \<Rightarrow> (int \<times> int) option"
  writable :: "string \<Rightarrow> bool"
  float_repr :: "real \<Rightarrow> string"
  is_dir :: "string \<Rightarrow> bool"
  read_lines :: "string \<Rightarrow> string list option"

text \<open>\<open>"..." + v\<close>: only a string can be concatenated to a string.\<close>

fun as_str :: "json \<Rightarrow> error + string" where
  "as_str (JStr s) = Inr s"
| "as_str _ = Inl TypeError"

text \<open>Lines 68 to 80 of \<open>get_xml_for_bbx\<close>: the \<open>object\<close> block.\<close>

definition object_element ::
  "(real \<Rightarrow> string) \<Rightarrow> string \<Rightarrow> pynum \<times> pynum \<times> pynum \<times> pynum \<Rightarrow> xml" where
  "object_element frepr bbx_label box =
     (case box of (xmin, ymin, xmax, ymax) \<Rightarrow>
       Element ''object'' (nl @ tab)
         [Element ''name'' bbx_label [] (nl @ tab),
          Element ''pose'' ''Unspecified'' [] (nl @ tab),
          Element ''truncated'' ''Unspecified'' [] (nl @ tab),
          Element ''difficult'' ''Unspecified'' [] (nl @ tab),
          Element ''occluded'' ''Unspecified'' [] (nl @ tab),
          Element ''bndbox'' (nl @ tab @ tab)
            [Element ''xmin'' (py_str frepr xmin) [] (nl @ tab @ tab),
             Element ''xmax'' (py_str frepr xmax) [] (nl @ tab @ tab),
             Element ''ymin'' (py_str frepr ymin) [] (nl @ tab @ tab),
             Element ''ymax'' (py_str frepr ymax) [] (nl @ tab)]
            nl]
         nl)"

text \<open>
  \<open>get_xml_for_bbx\<close>: the box first, then the block. The value is the element whose
  rendering is the string the source returns.
\<close>

definition get_xml_for_bbx :: "(real \<Rightarrow> string) \<Rightarrow> json \<Rightarrow> json \<Rightarrow> int \<Rightarrow> int \<Rightarrow> error + xml" where
  "get_xml_for_bbx frepr bbx_label bbx_data width height =
     bind (get_xml_for_bbx_box bbx_data width height) (\<lambda>box.
     bind (as_str bbx_label) (\<lambda>l.
       Inr (object_element frepr l box)))"

text \<open>Truth value of a JSON value, as \<open>not bbx\<close> tests it.\<close>

fun py_truthy :: "json \<Rightarrow> bool" where
  "py_truthy JNull = False"
| "py_truthy (JBool b) = b"
| "py_truthy (JNum n) = (num_val n \<noteq> 0)"
| "py_truthy (JStr s) = (s \<noteq> [])"
| "py_truthy (JArr xs) = (xs \<noteq> [])"
| "py_truthy (JObj kvs) = (kvs \<noteq> [])"

text \<open>
  The body of \<open>for bbx in data['annotation']\<close> (lines 131 to 143): the blocks one
  entry adds. An entry that is not an object and not falsy raises \<open>TypeError\<close> at
  \<open>bbx["shape"]\<close> or at \<open>bbx['label']\<close>.
\<close>

definition bbx_labels_of :: "json \<Rightarrow> json list" where
  "bbx_labels_of l = (case l of JArr ls \<Rightarrow> ls | _ \<Rightarrow> [l])"

definition entry_objects :: "(real \<Rightarrow> string) \<Rightarrow> json \<Rightarrow> int \<Rightarrow> int \<Rightarrow> error + xml list" where
  "entry_objects frepr bbx width height =
     (if \<not> py_truthy bbx then Inr []
      else case bbx of
        JObj kvs \<Rightarrow>
          (if map_of kvs ''shape'' \<noteq> None \<and> map_of kvs ''shape'' \<noteq> Some (JStr ''rectangle'')
           then Inr []
           else bind (getkey bbx ''label'') (\<lambda>l.
                  mapM (\<lambda>bbx_label. get_xml_for_bbx frepr bbx_label bbx width height)
                    (bbx_labels_of l)))
      | _ \<Rightarrow> Inl TypeError)"

text \<open>Lines 119 to 128 and 145: the document around the \<open>object\<close> blocks.\<close>

definition annotation_element :: "string \<Rightarrow> string \<Rightarrow> string \<Rightarrow> int \<Rightarrow> int \<Rightarrow> xml list \<Rightarrow> xml" where
  "annotation_element folder fileName filePath width height objects =
     Element ''annotation'' nl
       ([Element ''folder'' folder [] nl,
         Element ''filename'' fileName [] nl,
         Element ''path'' filePath [] nl,
         Element ''source'' (nl @ tab) [Element ''database'' ''Unknown'' [] nl] nl,
         Element ''size'' (nl @ tab)
           [Element ''width'' (str_int width) [] (nl @ tab),
            Element ''height'' (str_int height) [] (nl @ tab),
            Element ''depth'' ''Unspecified'' [] nl]
           nl,
         Element ''segmented'' ''Unspecified'' [] nl]
        @ objects)
       []"

datatype outcome = Skipped | Written string xml

text \<open>
  Lines 130 to 151, once the image has been opened: the blocks of all entries, the
  document, and the file written.
\<close>

definition write_annotation ::
  "voc_env \<Rightarrow> string \<Rightarrow> string \<Rightarrow> string \<Rightarrow> int \<Rightarrow> int \<Rightarrow> json list \<Rightarrow> error + outcome" where
  "write_annotation env image_dir xml_out_dir filePath width height entries =
     (let fileName = last_segment filePath;
          image_dir_folder_Name = last_segment image_dir
      in bind (mapM (\<lambda>bbx. entry_objects (float_repr env) bbx width height) entries) (\<lambda>blocks.
           let xmlFilePath = path_join xml_out_dir (fileName @ ''.xml'')
           in if writable env xmlFilePath
              then Inr (Written xmlFilePath
                     (annotation_element image_dir_folder_Name fileName filePath width height
                        (concat blocks)))
              else Inl IOError))"

text \<open>
  Lines 104 to 113: the path of the image from \<open>data['content']\<close> (only a string
  has \<open>split\<close>), and its size as \<open>Image.open\<close> reports it.
\<close>

definition image_file_path :: "string \<Rightarrow> json \<Rightarrow> error + string" where
  "image_file_path image_dir content =
     (case content of
        JStr image_url \<Rightarrow>
          Inr (image_dir @ ''/'' @
               py_replace (split_first ''___Total_'' image_url @ ''___Total_'') [] image_url)
      | _ \<Rightarrow> Inl AttributeError)"

definition open_image :: "voc_env \<Rightarrow> string \<Rightarrow> error + (int \<times> int)" where
  "open_image env filePath =
     (case image_size env filePath of None \<Rightarrow> Inl IOError | Some wh \<Rightarrow> Inr wh)"

text \<open>
  \<open>for bbx in data['annotation']\<close> runs over an array. After
  \<open>data['annotation'][0]['imageWidth']\<close> has been read the annotation is one.
\<close>

fun array_items :: "json \<Rightarrow> error + json list" where
  "array_items (JArr xs) = Inr xs"
| "array_items _ = Inl TypeError"

text \<open>The \<open>try\<close> block of \<open>convert_to_PascalVOC\<close>, after \<open>json.loads\<close>.\<close>

definition convert_data :: "voc_env \<Rightarrow> json \<Rightarrow> string \<Rightarrow> string \<Rightarrow> error + outcome" where
  "convert_data env data image_dir xml_out_dir =
     bind (getkey data ''annotation'') (\<lambda>annotation.
     bind (py_len annotation) (\<lambda>n.
       if n = 0 then Inr Skipped
       else
         bind (getidx annotation 0) (\<lambda>first.
         bind (getkey first ''imageWidth'') (\<lambda>declared_width.
         bind (getkey first ''imageHeight'') (\<lambda>declared_height.
         bind (getkey data ''content'') (\<lambda>content.
         bind (image_file_path image_dir content) (\<lambda>filePath.
         bind (open_image env filePath) (\<lambda>wh.
         bind (array_items annotation) (\<lambda>entries.
           write_annotation env image_dir xml_out_dir filePath (fst wh) (snd wh) entries)))))))))"

definition convert_try :: "voc_env \<Rightarrow> string \<Rightarrow> string \<Rightarrow> string \<Rightarrow> error + outcome" where
  "convert_try env dataturks_labeled_item image_dir xml_out_dir =
     (case loads env dataturks_labeled_item of
        None \<Rightarrow> Inl JSONDecodeError
      | Some data \<Rightarrow> convert_data env data image_dir xml_out_dir)"

text \<open>What one call logs: the skip notice, or the exception caught.\<close>

datatype log_entry = Info string | Exception error

text \<open>
  \<open>convert_to_PascalVOC\<close>: the status returned, the file written (its path and
  text), and what was logged. Every exception is caught and gives \<open>False\<close>.
\<close>

definition convert_to_PascalVOC ::
  "voc_env \<Rightarrow> string \<Rightarrow> string \<Rightarrow> string \<Rightarrow> bool \<times> (string \<times> string) option \<times> log_entry list" where
  "convert_to_PascalVOC env dataturks_labeled_item image_dir xml_out_dir =
     (case convert_try env dataturks_labeled_item image_dir xml_out_dir of
        Inr Skipped \<Rightarrow> (False, None, [Info ''Ignoring Skipped Item''])
      | Inr (Written xmlFilePath doc) \<Rightarrow> (True, Some (xmlFilePath, render doc), [])
      | Inl e \<Rightarrow> (False, None, [Exception e]))"

section \<open>dataturks_to_PascalVOC: the run over all lines\<close>

text \<open>\<open>int(len(lines) * validation_split)\<close>, the size asked of \<open>random.sample\<close>.\<close>

definition validation_count :: "nat \<Rightarrow> real \<Rightarrow> int" where
  "validation_count n validation_split = py_trunc (int_mul (int n) (PFloat validation_split))"

text \<open>
  \<open>random.sample(range(n), k)\<close> draws from the library's random source. The model
  takes the list drawn as an input of the run; the library promises \<open>k\<close> distinct
  elements of the range, and raises \<open>ValueError\<close> when \<open>k\<close> is negative or larger
  than \<open>n\<close>.
\<close>

definition is_random_sample :: "nat \<Rightarrow> int \<Rightarrow> nat list \<Rightarrow> bool" where
  "is_random_sample n k vs \<longleftrightarrow> int (length vs) = k \<and> distinct vs \<and> set vs \<subseteq> {0..<n}"

text \<open>The directory line \<open>idx\<close> is converted into (lines 182 to 185).\<close>

definition destination :: "nat list \<Rightarrow> string \<Rightarrow> string \<Rightarrow> nat \<Rightarrow> string" where
  "destination validation_indices pascal_voc_xml_train_dir pascal_voc_xml_validation_dir idx =
     (if idx \<notin> set validation_indices then pascal_voc_xml_train_dir
      else pascal_voc_xml_validation_dir)"

text \<open>The indices the loop sends to each of the two directories.\<close>

definition training_set :: "nat \<Rightarrow> nat list \<Rightarrow> nat list" where
  "training_set n validation_indices = filter (\<lambda>idx. idx \<notin> set validation_indices) [0..<n]"

definition validation_set :: "nat \<Rightarrow> nat list \<Rightarrow> nat list" where
  "validation_set n validation_indices = filter (\<lambda>idx. \<not> idx \<notin> set validation_indices) [0..<n]"

text \<open>
  The state of the loop of \<open>main\<close>: the one counter \<open>success\<close>, and the files written
  so far.
\<close>

record run =
  success :: nat
  files :: "(string \<times> string) list"
  logged :: "log_entry list"

definition main_step ::
  "voc_env \<Rightarrow> string \<Rightarrow> string \<Rightarrow> string \<Rightarrow> nat list \<Rightarrow> run \<Rightarrow> nat \<times> string \<Rightarrow> run" where
  "main_step env image_download_dir train_dir validation_dir validation_indices st item =
     (case item of (idx, line) \<Rightarrow>
       (case convert_to_PascalVOC env line image_download_dir
               (destination validation_indices train_dir validation_dir idx) of
          (status, written, msgs) \<Rightarrow>
            \<lparr>success = (if status then success st + 1 else success st),
             files = files st @ (case written of None \<Rightarrow> [] | Some f \<Rightarrow> [f]),
             logged = logged st @ msgs\<rparr>))"

text \<open>
  What a run reports: nothing when it returns early (a path is missing or the file
  has no line), otherwise the two numbers of the final log line, \<open>success\<close> and
  \<open>len(lines) - success\<close>, with the files written. The two output directories
  are created when missing; the model does not record that.
\<close>

datatype report = Returned_early | Completed (items_done: nat) (items_ignored: nat) (final: run)

definition main ::
  "voc_env \<Rightarrow> string \<Rightarrow> string \<Rightarrow> string \<Rightarrow> string \<Rightarrow> real \<Rightarrow> nat list \<Rightarrow> error + report" where
  "main env dataturks_JSON_FilePath image_download_dir pascal_voc_xml_train_dir
        pascal_voc_xml_validation_dir validation_split sampled =
     (if \<not> is_dir env image_download_dir then Inr Returned_early
      else case read_lines env dataturks_JSON_FilePath of
        None \<Rightarrow> Inr Returned_early
      | Some lines \<Rightarrow>
          if lines = [] then Inr Returned_early
          else
            let k = validation_count (length lines) validation_split
            in if k < 0 \<or> int (length lines) < k then Inl ValueError
               else
                 let validation_indices = sampled;
                     st = foldl (main_step env image_download_dir pascal_voc_xml_train_dir
                                   pascal_voc_xml_validation_dir validation_indices)
                            \<lparr>success = 0, files = [], logged = []\<rparr>
                            (enumerate 0 lines)
                 in Inr (Completed (success st) (length lines - success st) st))"

section \<open>create_tf_records: the parsed XML and the builtins applied to it\<close>

text \<open>
  The value \<open>dataset_util.recursive_parse_xml_to_dict\<close> builds: the text of a leaf
  (\<open>None\<close> when the leaf is empty), a dict for an element with children, and the
  list that collects the children tagged \<open>object\<close>.
\<close>

datatype xval = XText "string option" | XDict "(string \<times> xval) list" | XList "xval list"

text \<open>
  One turn of the library's loop over the children: \<open>result[child.tag] = value\<close>, or
  an append to \<open>result['object']\<close>, which only this branch ever sets.
\<close>

definition add_child :: "(string \<times> xval) list \<Rightarrow> string \<times> xval \<Rightarrow> (string \<times> xval) list" where
  "add_child result child =
     (case child of (child_tag, v) \<Rightarrow>
       if child_tag \<noteq> ''object'' then AList.update child_tag v result
       else case map_of result ''object'' of
              None \<Rightarrow> AList.update ''object'' (XList [v]) result
            | Some (XList vs) \<Rightarrow> AList.update ''object'' (XList (vs @ [v])) result
            | Some other \<Rightarrow> result)"

text \<open>
  \<open>recursive_parse_xml_to_dict(xml)[xml.tag]\<close>. An element without children is
  falsy for \<open>lxml\<close> and gives its text.
\<close>

fun xml_value :: "xml \<Rightarrow> xval" where
  "xml_value (Element t txt cs after) =
     (if cs = [] then XText (if txt = [] then None else Some txt)
      else XDict (foldl add_child [] (map (\<lambda>c. (tag c, xml_value c)) cs)))"

definition recursive_parse_xml_to_dict :: "xml \<Rightarrow> xval" where
  "recursive_parse_xml_to_dict x = XDict [(tag x, xml_value x)]"

text \<open>\<open>v[k]\<close> on a parsed value: only a dict takes a string key.\<close>

fun xget :: "xval \<Rightarrow> string \<Rightarrow> error + xval" where
  "xget (XDict kvs) k = (case map_of kvs k of None \<Rightarrow> Inl (KeyError k) | Some v \<Rightarrow> Inr v)"
| "xget _ k = Inl TypeError"

text \<open>
  \<open>int(s)\<close> on a string of ASCII characters (Python 3): blanks around the literal
  are dropped, a sign may lead, and single underscores may stand between digits.
\<close>

definition is_space :: "char \<Rightarrow> bool" where
  "is_space c \<longleftrightarrow> c \<in> {CHR '' '', CHR 0x09, CHR 0x0A, CHR 0x0B, CHR 0x0C, CHR 0x0D,
                       CHR 0x1C, CHR 0x1D, CHR 0x1E, CHR 0x1F}"

definition is_digit :: "char \<Rightarrow> bool" where
  "is_digit c \<longleftrightarrow> 48 \<le> (of_char c :: nat) \<and> (of_char c :: nat) \<le> 57"

definition digit_val :: "char \<Rightarrow> nat" where
  "digit_val c = of_char c - 48"

definition py_strip :: "string \<Rightarrow> string" where
  "py_strip s = rev (dropWhile is_space (rev (dropWhile is_space s)))"

fun int_literal_ok :: "string \<Rightarrow> bool" where
  "int_literal_ok [] = False"
| "int_literal_ok [c] = is_digit c"
| "int_literal_ok (c # d # rest) =
     (is_digit c \<and> (if d = CHR ''_'' then rest \<noteq> [] \<and> int_literal_ok rest
                    else int_literal_ok (d # rest)))"

definition digits_value :: "string \<Rightarrow> nat" where
  "digits_value s = foldl (\<lambda>a c. 10 * a + digit_val c) 0 (filter is_digit s)"

definition py_int :: "string \<Rightarrow> int option" where
  "py_int s =
     (case py_strip s of
        [] \<Rightarrow> None
      | c # r \<Rightarrow>
          if c = CHR ''-'' then (if int_literal_ok r then Some (- int (digits_value r)) else None)
          else if c = CHR ''+'' then (if int_literal_ok r then Some (int (digits_value r)) else None)
          else if int_literal_ok (c # r) then Some (int (digits_value (c # r)))
          else None)"

text \<open>\<open>int(v)\<close> and \<open>float(v)\<close> on a parsed value. The float a string denotes is the
  parameter \<open>tofloat\<close> (\<open>None\<close> when \<open>float\<close> raises \<open>ValueError\<close>).\<close>

fun int_of_xval :: "xval \<Rightarrow> error + int" where
  "int_of_xval (XText (Some s)) = (case py_int s of None \<Rightarrow> Inl ValueError | Some n \<Rightarrow> Inr n)"
| "int_of_xval _ = Inl TypeError"

fun float_of_xval :: "(string \<Rightarrow> real option) \<Rightarrow> xval \<Rightarrow> error + real" where
  "float_of_xval tofloat (XText (Some s)) =
     (case tofloat s of None \<Rightarrow> Inl ValueError | Some r \<Rightarrow> Inr r)"
| "float_of_xval tofloat _ = Inl TypeError"

text \<open>\<open>v.encode('utf8')\<close>: only a string has the method. Text is kept as bytes.\<close>

fun encode_utf8 :: "xval \<Rightarrow> error + string" where
  "encode_utf8 (XText (Some s)) = Inr s"
| "encode_utf8 _ = Inl AttributeError"

text \<open>\<open>label_map_dict[v]\<close>. The line before has encoded \<open>v\<close>, so it is a string.\<close>

fun label_lookup :: "(string \<Rightarrow> int option) \<Rightarrow> xval \<Rightarrow> error + int" where
  "label_lookup label_map_dict (XText (Some s)) =
     (case label_map_dict s of None \<Rightarrow> Inl (KeyError s) | Some i \<Rightarrow> Inr i)"
| "label_lookup label_map_dict _ = Inl TypeError"

text \<open>\<open>for obj in v\<close>: the elements of a list, the keys of a dict, the characters of a
  string.\<close>

fun iterate :: "xval \<Rightarrow> error + xval list" where
  "iterate (XList vs) = Inr vs"
| "iterate (XDict kvs) = Inr (map (\<lambda>kv. XText (Some (fst kv))) kvs)"
| "iterate (XText (Some s)) = Inr (map (\<lambda>c. XText (Some [c])) s)"
| "iterate (XText None) = Inl TypeError"

fun foldM :: "('s \<Rightarrow> 'a \<Rightarrow> error + 's) \<Rightarrow> 's \<Rightarrow> 'a list \<Rightarrow> error + 's" where
  "foldM f s [] = Inr s"
| "foldM f s (x # xs) = bind (f s x) (\<lambda>s'. foldM f s' xs)"

section \<open>create_tf_records: dict_to_tf_example\<close>

text \<open>
  What the script reads from its surroundings: the bytes of a file (\<open>None\<close> when the
  read raises), the format \<open>PIL.Image.open\<close> reports for them (\<open>None\<close> when it
  raises), the SHA-256 digest in hex, the float a string denotes, and the XML parser
  (\<open>None\<close> when it raises).
\<close>

record tf_env =
  gfile_read :: "string \<Rightarrow> string option"
  image_format :: "string \<Rightarrow> string option"
  sha256_hexdigest :: "string \<Rightarrow> string"
  tofloat :: "string \<Rightarrow> real option"
  fromstring :: "string \<Rightarrow> xml option"

text \<open>The nine lists of lines 93 to 101.\<close>

record object_lists =
  xmin_list :: "real list"
  ymin_list :: "real list"
  xmax_list :: "real list"
  ymax_list :: "real list"
  classes :: "int list"
  classes_text :: "string list"
  truncated :: "int list"
  poses :: "string list"
  difficult_obj :: "int list"

definition no_objects :: object_lists where
  "no_objects = \<lparr>xmin_list = [], ymin_list = [], xmax_list = [], ymax_list = [], classes = [],
                  classes_text = [], truncated = [], poses = [], difficult_obj = []\<rparr>"

text \<open>\<open>float(obj['bndbox'][k]) / size\<close>. Dividing a float by the int 0 raises.\<close>

definition box_fraction :: "(string \<Rightarrow> real option) \<Rightarrow> xval \<Rightarrow> string \<Rightarrow> int \<Rightarrow> error + real" where
  "box_fraction tf obj k extent =
     bind (xget obj ''bndbox'') (\<lambda>b. bind (xget b k) (\<lambda>v. bind (float_of_xval tf v) (\<lambda>r.
       if extent = 0 then Inl ZeroDivisionError else Inr (r / of_int extent))))"

text \<open>Lines 110 to 119: the appends for an object that is kept.\<close>

definition append_object ::
  "(string \<Rightarrow> real option) \<Rightarrow> (string \<Rightarrow> int option) \<Rightarrow> int \<Rightarrow> int \<Rightarrow> object_lists \<Rightarrow> xval \<Rightarrow> bool
     \<Rightarrow> error + object_lists" where
  "append_object tf label_map_dict width height st obj difficult =
     bind (box_fraction tf obj ''xmin'' width) (\<lambda>x0.
     bind (box_fraction tf obj ''ymin'' height) (\<lambda>y0.
     bind (box_fraction tf obj ''xmax'' width) (\<lambda>x1.
     bind (box_fraction tf obj ''ymax'' height) (\<lambda>y1.
     bind (bind (xget obj ''name'') encode_utf8) (\<lambda>text.
     bind (bind (xget obj ''name'') (label_lookup label_map_dict)) (\<lambda>cls.
     bind (bind (xget obj ''truncated'') int_of_xval) (\<lambda>trunc.
     bind (bind (xget obj ''pose'') encode_utf8) (\<lambda>pose.
       Inr \<lparr>xmin_list = xmin_list st @ [x0], ymin_list = ymin_list st @ [y0],
            xmax_list = xmax_list st @ [x1], ymax_list = ymax_list st @ [y1],
            classes = classes st @ [cls], classes_text = classes_text st @ [text],
            truncated = truncated st @ [trunc], poses = poses st @ [pose],
            difficult_obj = difficult_obj st @ [if difficult then 1 else 0]\<rparr>))))))))"

text \<open>Lines 104 to 119: the body of \<open>for obj in data['object']\<close>.\<close>

definition object_step ::
  "(string \<Rightarrow> real option) \<Rightarrow> (string \<Rightarrow> int option) \<Rightarrow> bool \<Rightarrow> int \<Rightarrow> int \<Rightarrow> object_lists \<Rightarrow> xval
     \<Rightarrow> error + object_lists" where
  "object_step tf label_map_dict ignore_difficult_instances width height st obj =
     bind (xget obj ''difficult'') (\<lambda>d.
       if d = XText (Some ''Unspecified'') then Inr st
       else bind (int_of_xval d) (\<lambda>n.
         let difficult = (n \<noteq> 0)
         in if ignore_difficult_instances \<and> difficult then Inr st
            else append_object tf label_map_dict width height st obj difficult))"

text \<open>Lines 102 and 103: the objects the loop runs over, none without the key.\<close>

definition data_objects :: "xval \<Rightarrow> error + xval list" where
  "data_objects data =
     (case data of
        XDict kvs \<Rightarrow> (case map_of kvs ''object'' of None \<Rightarrow> Inr [] | Some v \<Rightarrow> iterate v)
      | _ \<Rightarrow> Inl TypeError)"

text \<open>The feature record: the nine lists and the fields of the image.\<close>

record tf_example = object_lists +
  image_height :: int
  image_width :: int
  image_filename :: string
  image_source_id :: string
  image_key_sha256 :: string
  image_encoded :: string
  image_format_tag :: string

text \<open>
  Lines 81 to 88: the image is read and opened, its format checked, its digest
  taken. \<open>os.path.join\<close> takes a string only.
\<close>

definition read_image :: "tf_env \<Rightarrow> string \<Rightarrow> xval \<Rightarrow> error + (string \<times> string)" where
  "read_image env image_data_directory filename =
     (case filename of
        XText (Some name) \<Rightarrow>
          (case gfile_read env (path_join image_data_directory name) of
             None \<Rightarrow> Inl IOError
           | Some encoded_jpg \<Rightarrow>
               (case image_format env encoded_jpg of
                  None \<Rightarrow> Inl IOError
                | Some fmt \<Rightarrow>
                    if fmt \<noteq> ''JPEG'' \<and> fmt \<noteq> ''PNG'' then Inl ValueError
                    else Inr (encoded_jpg, sha256_hexdigest env encoded_jpg)))
      | _ \<Rightarrow> Inl TypeError)"

definition dict_to_tf_example ::
  "tf_env \<Rightarrow> xval \<Rightarrow> string \<Rightarrow> (string \<Rightarrow> int option) \<Rightarrow> bool \<Rightarrow> error + tf_example" where
  "dict_to_tf_example env data image_data_directory label_map_dict ignore_difficult_instances =
     bind (xget data ''filename'') (\<lambda>filename.
     bind (read_image env image_data_directory filename) (\<lambda>img.
     bind (bind (bind (xget data ''size'') (\<lambda>s. xget s ''width'')) int_of_xval) (\<lambda>width.
     bind (bind (bind (xget data ''size'') (\<lambda>s. xget s ''height'')) int_of_xval) (\<lambda>height.
     bind (data_objects data) (\<lambda>objs.
     bind (foldM (object_step (tofloat env) label_map_dict ignore_difficult_instances width height)
             no_objects objs) (\<lambda>ls.
     bind (bind (xget data ''filename'') encode_utf8) (\<lambda>name.
       Inr \<lparr>xmin_list = xmin_list ls, ymin_list = ymin_list ls,
            xmax_list = xmax_list ls, ymax_list = ymax_list ls,
            classes = classes ls, classes_text = classes_text ls,
            truncated = truncated ls, poses = poses ls, difficult_obj = difficult_obj ls,
            image_height = height, image_width = width, image_filename = name,
            image_source_id = name, image_key_sha256 = snd img,
            image_encoded = fst img, image_format_tag = ''jpeg''\<rparr>)))))))"

section \<open>create_tf_records: the run over the annotation files\<close>

text \<open>
  Lines 162 to 169 for one file name: read, parse, take the \<open>annotation\<close> entry,
  convert.
\<close>

definition example_of_file ::
  "tf_env \<Rightarrow> string \<Rightarrow> string \<Rightarrow> (string \<Rightarrow> int option) \<Rightarrow> bool \<Rightarrow> string \<Rightarrow> error + tf_example" where
  "example_of_file env annotations_dir image_data_dir label_map_dict ignore_difficult_instances example =
     (case gfile_read env (path_join annotations_dir example) of
        None \<Rightarrow> Inl IOError
      | Some xml_str \<Rightarrow>
          (case fromstring env xml_str of
             None \<Rightarrow> Inl XMLSyntaxError
           | Some x \<Rightarrow>
               bind (xget (recursive_parse_xml_to_dict x) ''annotation'') (\<lambda>data.
                 dict_to_tf_example env data image_data_dir label_map_dict
                   ignore_difficult_instances)))"

text \<open>
  The loop of \<open>main\<close>: the records written, in order, and the exception that ended
  the run, if any. No exception is caught.
\<close>

fun write_examples ::
  "(string \<Rightarrow> error + tf_example) \<Rightarrow> tf_example list \<Rightarrow> string list \<Rightarrow> tf_example list \<times> error option" where
  "write_examples convert written [] = (written, None)"
| "write_examples convert written (example # examples_list) =
     (case convert example of
        Inl e \<Rightarrow> (written, Some e)
      | Inr tf_example \<Rightarrow> write_examples convert (written @ [tf_example]) examples_list)"

definition create_tf_records_main ::
  "tf_env \<Rightarrow> string \<Rightarrow> string \<Rightarrow> (string \<Rightarrow> int option) \<Rightarrow> bool \<Rightarrow> string list
     \<Rightarrow> tf_example list \<times> error option" where
  "create_tf_records_main env annotations_dir image_data_dir label_map_dict
       ignore_difficult_instances files_list =
     write_examples
       (example_of_file env annotations_dir image_data_dir label_map_dict ignore_difficult_instances)
       [] files_list"

section \<open>Which objects the loop keeps\<close>

text \<open>
  The two guards of the loop, as predicates on an object: line 104 skips an object
  whose \<open>difficult\<close> field is the text \<open>Unspecified\<close>; line 107 skips one whose field
  parses to a non-zero int when difficult instances are ignored. An object is
  retained when it passes both, that is, when the loop reaches line 110 for it.
\<close>

definition unspecified :: "xval \<Rightarrow> bool" where
  "unspecified obj \<longleftrightarrow> xget obj ''difficult'' = Inr (XText (Some ''Unspecified''))"

definition parsed_difficult :: "xval \<Rightarrow> bool" where
  "parsed_difficult obj \<longleftrightarrow>
     (case xget obj ''difficult'' of
        Inl e \<Rightarrow> False
      | Inr d \<Rightarrow> d \<noteq> XText (Some ''Unspecified'') \<and>
                 (case int_of_xval d of Inl e \<Rightarrow> False | Inr n \<Rightarrow> n \<noteq> 0))"

definition retained :: "bool \<Rightarrow> xval \<Rightarrow> bool" where
  "retained ignore_difficult_instances obj \<longleftrightarrow>
     (case xget obj ''difficult'' of
        Inl e \<Rightarrow> False
      | Inr d \<Rightarrow> d \<noteq> XText (Some ''Unspecified'') \<and>
                 (case int_of_xval d of
                    Inl e \<Rightarrow> False
                  | Inr n \<Rightarrow> \<not> (ignore_difficult_instances \<and> n \<noteq> 0)))"

text \<open>The label of an object, when its \<open>name\<close> field is a text.\<close>

definition object_name :: "xval \<Rightarrow> string" where
  "object_name obj = (case xget obj ''name'' of Inr (XText (Some s)) \<Rightarrow> s | _ \<Rightarrow> [])"

text \<open>The lengths of the nine lists, in the order of lines 93 to 101.\<close>

definition list_lengths :: "'a object_lists_scheme \<Rightarrow> nat list" where
  "list_lengths ls =
     [length (xmin_list ls), length (ymin_list ls), length (xmax_list ls), length (ymax_list ls),
      length (classes ls), length (classes_text ls), length (truncated ls), length (poses ls),
      length (difficult_obj ls)]"

section \<open>The documents of the converter as the encoder reads them\<close>



section \<open>Example inputs\<close>










text \<open>
  An annotation as \<open>recursive_parse_xml_to_dict\<close> gives it, for a 100 by 200 image
  with three objects whose \<open>difficult\<close> fields are \<open>Unspecified\<close>, \<open>0\<close> and \<open>1\<close>; a
  label map; and surroundings in which the image \<open>images/scan1.jpg\<close> is a JPEG.
  \<open>example_tofloat\<close> is \<open>float\<close> on decimal integer literals.
\<close>

definition example_object :: "string \<Rightarrow> string \<Rightarrow> xval" where
  "example_object name d =
     XDict [(''name'', XText (Some name)), (''pose'', XText (Some ''Unspecified'')),
            (''truncated'', XText (Some ''0'')), (''difficult'', XText (Some d)),
            (''occluded'', XText (Some ''Unspecified'')),
            (''bndbox'', XDict [(''xmin'', XText (Some ''10'')), (''xmax'', XText (Some ''50'')),
                                (''ymin'', XText (Some ''20'')), (''ymax'', XText (Some ''100''))])]"

definition example_data :: "xval list \<Rightarrow> xval" where
  "example_data objs =
     XDict [(''folder'', XText (Some ''images'')), (''filename'', XText (Some ''scan1.jpg'')),
            (''size'', XDict [(''width'', XText (Some ''100'')), (''height'', XText (Some ''200'')),
                              (''depth'', XText (Some ''Unspecified''))]),
            (''object'', XList objs)]"

definition example_label_map :: "string \<Rightarrow> int option" where
  "example_label_map = [''cat'' \<mapsto> 1, ''dog'' \<mapsto> 2]"

definition example_tofloat :: "string \<Rightarrow> real option" where
  "example_tofloat s = map_option of_int (py_int s)"

text \<open>
  A hand-written annotation file for the same image, with one object labelled
  \<open>bird\<close> whose \<open>difficult\<close> field is \<open>0\<close>. \<open>example_tf_env\<close> holds the image and this
  file, and its XML parser knows the text of this file.
\<close>

definition example_doc :: xml where
  "example_doc =
     Element ''annotation'' []
       [Element ''folder'' ''images'' [] [],
        Element ''filename'' ''scan1.jpg'' [] [],
        Element ''size'' []
          [Element ''width'' ''100'' [] [], Element ''height'' ''200'' [] [],
           Element ''depth'' ''Unspecified'' [] []] [],
        Element ''object'' []
          [Element ''name'' ''bird'' [] [], Element ''pose'' ''Unspecified'' [] [],
           Element ''truncated'' ''0'' [] [], Element ''difficult'' ''0'' [] [],
           Element ''occluded'' ''Unspecified'' [] [],
           Element ''bndbox'' []
             [Element ''xmin'' ''10'' [] [], Element ''xmax'' ''50'' [] [],
              Element ''ymin'' ''20'' [] [], Element ''ymax'' ''100'' [] []] []] []]
       []"

definition example_tf_env :: tf_env where
  "example_tf_env =
     \<lparr>gfile_read = (\<lambda>p. if p = ''images/scan1.jpg'' then Some ''JFIF''
                         else if p = ''annotations/scan1.xml'' then Some (render example_doc)
                         else None),
      image_format = (\<lambda>b. Some ''JPEG''),
      sha256_hexdigest = (\<lambda>b. ''digest''),
      tofloat = example_tofloat,
      fromstring = (\<lambda>s. if s = render example_doc then Some example_doc else None)\<rparr>"

section \<open>Properties of the box\<close>















text \<open>
  Claim C7. A 100 by 200 image with one rectangle at the fractional points
  (0.1, 0.1), (0.5, 0.1), (0.5, 0.5), (0.1, 0.5) gives the box \<open>xmin = 10\<close>,
  \<open>ymin = 20\<close>, \<open>xmax = 50\<close>, \<open>ymax = 100\<close>.
\<close>

theorem box_of_100_by_200_scenario:
  "get_xml_for_bbx_box
     (JObj [(''label'', JStr ''cell''), (''shape'', JStr ''rectangle''),
            (''points'', JArr [pair_point (PFloat (1/10)) (PFloat (1/10)),
                               pair_point (PFloat (5/10)) (PFloat (1/10)),
                               pair_point (PFloat (5/10)) (PFloat (5/10)),
                               pair_point (PFloat (1/10)) (PFloat (5/10))])]) 100 200
   = Inr (PFloat 10, PFloat 20, PFloat 50, PFloat 100)"
  by (simp add: get_xml_for_bbx_box_def points_column_def pair_point_def min2_def max2_def)




section \<open>Properties of the run over all lines\<close>



lemma random_sample_exists:
  assumes "0 \<le> k" "k \<le> int n"
  shows "is_random_sample n k [0..<nat k]"
  using assms by (auto simp add: is_random_sample_def)

lemma destination_by_sets:
  assumes "idx < n"
  shows "(idx \<in> set (training_set n vs) \<longrightarrow> destination vs train_dir validation_dir idx = train_dir)
       \<and> (idx \<in> set (validation_set n vs) \<longrightarrow> destination vs train_dir validation_dir idx = validation_dir)"
  using assms by (simp add: training_set_def validation_set_def destination_def)




lemma main_step_success:
  "success (main_step env d t v vs st (idx, line)) =
     success st + (if fst (convert_to_PascalVOC env line d (destination vs t v idx)) then 1 else 0)"
  by (simp add: main_step_def split: prod.splits)

lemma foldl_main_step_success:
  "success (foldl (main_step env d t v vs) st items) =
     success st +
     length (filter (\<lambda>item. fst (convert_to_PascalVOC env (snd item) d (destination vs t v (fst item)))) items)"
proof (induction items arbitrary: st)
  case Nil
  then show ?case by simp
next
  case (Cons item items)
  obtain idx line where item: "item = (idx, line)" by (cases item)
  show ?case
    by (simp add: Cons.IH item main_step_success)
qed

lemma main_counts:
  assumes m: "main env path d t v f vs = Inr (Completed done ignored st)"
    and l: "read_lines env path = Some lines"
  shows "done = length (filter (\<lambda>item. fst (convert_to_PascalVOC env (snd item) d (destination vs t v (fst item))))
                  (enumerate 0 lines))
       \<and> ignored = length (filter (\<lambda>item. \<not> fst (convert_to_PascalVOC env (snd item) d (destination vs t v (fst item))))
                  (enumerate 0 lines))"
proof -
  let ?ok = "\<lambda>item. fst (convert_to_PascalVOC env (snd item) d (destination vs t v (fst item)))"
  let ?items = "enumerate 0 lines"
  from m l have d: "done = length (filter ?ok ?items)"
    and i: "ignored = length lines - length (filter ?ok ?items)"
    by (auto simp add: main_def Let_def foldl_main_step_success split: if_splits)
  have "length (filter ?ok ?items) + length (filter (\<lambda>x. \<not> ?ok x) ?items) = length lines"
    using sum_length_filter_compl [of ?ok ?items] by simp
  with d i show ?thesis by simp
qed




section \<open>Properties of the text of an int\<close>













section \<open>Properties of dict_to_tf_example\<close>

lemma bind_Inr_iff: "bind m f = Inr y \<longleftrightarrow> (\<exists>x. m = Inr x \<and> f x = Inr y)"
  by (cases m) simp_all

lemma object_step_not_retained:
  assumes "object_step tf lm ig w h st obj = Inr st'" and "\<not> retained ig obj"
  shows "st' = st"
  using assms
  by (auto simp add: object_step_def retained_def bind_Inr_iff Let_def split: if_splits sum.splits)

lemma object_step_retained:
  assumes "retained ig obj"
  shows "object_step tf lm ig w h st obj = append_object tf lm w h st obj (parsed_difficult obj)"
  using assms
  by (auto simp add: object_step_def retained_def parsed_difficult_def Let_def split: sum.splits)

lemma append_object_Inr:
  assumes "append_object tf lm w h st obj dif = Inr st'"
  shows "\<exists>x0 y0 x1 y1 cls tr pose.
           st' = \<lparr>xmin_list = xmin_list st @ [x0], ymin_list = ymin_list st @ [y0],
                  xmax_list = xmax_list st @ [x1], ymax_list = ymax_list st @ [y1],
                  classes = classes st @ [cls], classes_text = classes_text st @ [object_name obj],
                  truncated = truncated st @ [tr], poses = poses st @ [pose],
                  difficult_obj = difficult_obj st @ [if dif then 1 else 0]\<rparr>
         \<and> lm (object_name obj) = Some cls"
proof -
  from assms obtain x0 y0 x1 y1 ntext cls tr pose where
    nm: "bind (xget obj ''name'') encode_utf8 = Inr ntext"
    and cl: "bind (xget obj ''name'') (label_lookup lm) = Inr cls"
    and st': "st' = \<lparr>xmin_list = xmin_list st @ [x0], ymin_list = ymin_list st @ [y0],
                  xmax_list = xmax_list st @ [x1], ymax_list = ymax_list st @ [y1],
                  classes = classes st @ [cls], classes_text = classes_text st @ [ntext],
                  truncated = truncated st @ [tr], poses = poses st @ [pose],
                  difficult_obj = difficult_obj st @ [if dif then 1 else 0]\<rparr>"
    unfolding append_object_def bind_Inr_iff by blast
  from nm obtain v where v: "xget obj ''name'' = Inr v" and e: "encode_utf8 v = Inr ntext"
    by (auto simp add: bind_Inr_iff)
  from e have vt: "v = XText (Some ntext)" by (cases v rule: encode_utf8.cases) simp_all
  from v vt have on: "object_name obj = ntext" by (simp add: object_name_def)
  from cl v vt have "lm ntext = Some cls" by (auto split: option.splits)
  with st' on show ?thesis by blast
qed


lemma object_step_Inr:
  assumes "object_step tf lm ig w h st obj = Inr st'"
  shows "(if retained ig obj
          then list_lengths st' = map Suc (list_lengths st)
             \<and> classes_text st' = classes_text st @ [object_name obj]
             \<and> difficult_obj st' = difficult_obj st @ [if parsed_difficult obj then 1 else 0]
             \<and> lm (object_name obj) \<noteq> None
          else st' = st \<and> (unspecified obj \<or> (ig \<and> parsed_difficult obj)))"
proof (cases "retained ig obj")
  case True
  with assms have "append_object tf lm w h st obj (parsed_difficult obj) = Inr st'"
    by (simp add: object_step_retained)
  from append_object_Inr [OF this] True show ?thesis
    by (auto simp add: list_lengths_def)
next
  case False
  with assms have "st' = st" by (simp add: object_step_not_retained)
  moreover from assms False have "unspecified obj \<or> (ig \<and> parsed_difficult obj)"
    by (auto simp add: object_step_def retained_def unspecified_def parsed_difficult_def
        bind_Inr_iff Let_def split: if_splits sum.splits)
  ultimately show ?thesis using False by simp
qed

lemma foldM_object_step:
  assumes "foldM (object_step tf lm ig w h) st objs = Inr st'"
  shows "list_lengths st' = map (\<lambda>n. n + length (filter (retained ig) objs)) (list_lengths st)
       \<and> classes_text st' = classes_text st @ map object_name (filter (retained ig) objs)
       \<and> difficult_obj st' = difficult_obj st
             @ map (\<lambda>obj. if parsed_difficult obj then 1 else 0) (filter (retained ig) objs)
       \<and> (\<forall>obj \<in> set objs. retained ig obj \<longrightarrow> lm (object_name obj) \<noteq> None)
       \<and> (\<forall>obj \<in> set objs. \<not> retained ig obj \<longrightarrow> unspecified obj \<or> (ig \<and> parsed_difficult obj))"
  using assms
proof (induction objs arbitrary: st)
  case Nil
  then show ?case by (simp add: list_lengths_def)
next
  case (Cons obj objs)
  from Cons.prems obtain s1 where
    s1: "object_step tf lm ig w h st obj = Inr s1" and
    rest: "foldM (object_step tf lm ig w h) s1 objs = Inr st'"
    by (auto simp add: bind_Inr_iff)
  note ih = Cons.IH [OF rest]
  note step = object_step_Inr [OF s1]
  show ?case
  proof (cases "retained ig obj")
    case True
    with step have a: "list_lengths s1 = map Suc (list_lengths st)"
      and b: "classes_text s1 = classes_text st @ [object_name obj]"
      and b': "difficult_obj s1 = difficult_obj st @ [if parsed_difficult obj then 1 else 0]"
      and c: "lm (object_name obj) \<noteq> None" by simp_all
    from ih a b b' c True show ?thesis by (simp add: list_lengths_def)
  next
    case False
    with step have a: "s1 = st" and b: "unspecified obj \<or> (ig \<and> parsed_difficult obj)"
      by simp_all
    from ih a b False show ?thesis by simp
  qed
qed


lemma dict_to_tf_example_Inr:
  assumes "dict_to_tf_example env data dir lm ig = Inr ex"
  shows "\<exists>objs ls width height.
           data_objects data = Inr objs
         \<and> foldM (object_step (tofloat env) lm ig width height) no_objects objs = Inr ls
         \<and> list_lengths ex = list_lengths ls
         \<and> classes_text ex = classes_text ls
         \<and> difficult_obj ex = difficult_obj ls"
proof -
  from assms obtain objs ls width height name img where
    o: "data_objects data = Inr objs"
    and f: "foldM (object_step (tofloat env) lm ig width height) no_objects objs = Inr ls"
    and e: "ex = \<lparr>xmin_list = xmin_list ls, ymin_list = ymin_list ls,
            xmax_list = xmax_list ls, ymax_list = ymax_list ls,
            classes = classes ls, classes_text = classes_text ls,
            truncated = truncated ls, poses = poses ls, difficult_obj = difficult_obj ls,
            image_height = height, image_width = width, image_filename = name,
            image_source_id = name, image_key_sha256 = snd img,
            image_encoded = fst img, image_format_tag = ''jpeg''\<rparr>"
    unfolding dict_to_tf_example_def bind_Inr_iff by blast
  from e have "list_lengths ex = list_lengths ls" "classes_text ex = classes_text ls"
    "difficult_obj ex = difficult_obj ls"
    by (simp_all add: list_lengths_def)
  with o f show ?thesis by blast
qed

lemma no_objects_lengths: "list_lengths no_objects = [0, 0, 0, 0, 0, 0, 0, 0, 0]"
  by (simp add: list_lengths_def no_objects_def)

lemma encoded_objects:
  assumes ex: "dict_to_tf_example env data dir lm ig = Inr ex"
    and objs: "data_objects data = Inr objs"
  shows "list_lengths ex = replicate 9 (length (filter (retained ig) objs))
       \<and> classes_text ex = map object_name (filter (retained ig) objs)
       \<and> difficult_obj ex = map (\<lambda>obj. if parsed_difficult obj then 1 else 0) (filter (retained ig) objs)
       \<and> (\<forall>obj \<in> set objs. retained ig obj \<longrightarrow> lm (object_name obj) \<noteq> None)
       \<and> (\<forall>obj \<in> set objs. \<not> retained ig obj \<longrightarrow> unspecified obj \<or> (ig \<and> parsed_difficult obj))"
proof -
  from dict_to_tf_example_Inr [OF ex] objs obtain ls width height where
    f: "foldM (object_step (tofloat env) lm ig width height) no_objects objs = Inr ls"
    and l: "list_lengths ex = list_lengths ls" and c: "classes_text ex = classes_text ls"
    and d: "difficult_obj ex = difficult_obj ls"
    by auto
  from foldM_object_step [OF f] l c d show ?thesis
    by (simp add: no_objects_lengths numeral_eq_Suc) (simp add: no_objects_def)
qed

lemma three_way_count:
  assumes "\<forall>x \<in> set xs. (P x \<and> \<not> Q x \<and> \<not> R x) \<or> (\<not> P x \<and> Q x \<and> \<not> R x) \<or> (\<not> P x \<and> \<not> Q x \<and> R x)"
  shows "length (filter P xs) + length (filter Q xs) + length (filter R xs) = length xs"
  using assms by (induction xs) auto

lemma retained_exclusive:
  "\<not> (retained ig obj \<and> unspecified obj)" "\<not> (unspecified obj \<and> parsed_difficult obj)"
  "\<not> (retained ig obj \<and> ig \<and> parsed_difficult obj)"
  "\<not> ig \<Longrightarrow> parsed_difficult obj \<Longrightarrow> retained ig obj"
  by (auto simp add: retained_def unspecified_def parsed_difficult_def split: sum.splits)

text \<open>
  Claim C4. When \<open>dict_to_tf_example\<close> returns a record for an annotation with the
  objects \<open>objs\<close>: the labels and the difficult flags of the record are those of
  the retained objects, in order; no object whose \<open>difficult\<close> field is
  \<open>Unspecified\<close> is retained; the number of entries is the number of objects less
  the number of \<open>Unspecified\<close> ones and, when difficult instances are ignored, less
  the number of those whose field parses to a non-zero int, which are dropped too.
\<close>

theorem unspecified_objects_are_dropped:
  assumes ex: "dict_to_tf_example env data dir lm ig = Inr ex"
    and objs: "data_objects data = Inr objs"
  shows "length (classes_text ex) + length (filter unspecified objs)
           + (if ig then length (filter parsed_difficult objs) else 0) = length objs
       \<and> classes_text ex = map object_name (filter (retained ig) objs)
       \<and> difficult_obj ex = map (\<lambda>obj. if parsed_difficult obj then 1 else 0) (filter (retained ig) objs)
       \<and> (\<forall>obj \<in> set objs. unspecified obj \<longrightarrow> \<not> retained ig obj)
       \<and> (\<forall>obj \<in> set objs. ig \<and> parsed_difficult obj \<longrightarrow> \<not> retained ig obj)"
proof -
  note enc = encoded_objects [OF ex objs]
  from enc have ct: "classes_text ex = map object_name (filter (retained ig) objs)"
    and df: "difficult_obj ex = map (\<lambda>obj. if parsed_difficult obj then 1 else 0) (filter (retained ig) objs)"
    and rest: "\<forall>obj \<in> set objs. \<not> retained ig obj \<longrightarrow> unspecified obj \<or> (ig \<and> parsed_difficult obj)"
    by blast+
  have count: "length (filter (retained ig) objs) + length (filter unspecified objs)
           + (if ig then length (filter parsed_difficult objs) else 0) = length objs"
  proof (cases ig)
    case True
    have "length (filter (retained ig) objs) + length (filter unspecified objs)
            + length (filter parsed_difficult objs) = length objs"
      using rest True retained_exclusive
      by (intro three_way_count) blast
    with True show ?thesis by simp
  next
    case False
    have "length (filter (retained ig) objs) + length (filter unspecified objs)
            + length (filter (\<lambda>x. False) objs) = length objs"
      using rest False retained_exclusive
      by (intro three_way_count) blast
    with False show ?thesis by simp
  qed
  have u: "\<forall>obj \<in> set objs. unspecified obj \<longrightarrow> \<not> retained ig obj"
    using retained_exclusive(1) by blast
  have d: "\<forall>obj \<in> set objs. ig \<and> parsed_difficult obj \<longrightarrow> \<not> retained ig obj"
    using retained_exclusive(3) by blast
  from count ct df u d show ?thesis by simp
qed

text \<open>
  Claim C9. When \<open>dict_to_tf_example\<close> returns a record, each of the nine lists of
  the record (the four box corners, class text, class id, difficult flag, truncated
  flag, pose) has as many entries as there are retained objects.
\<close>

theorem parallel_lists_have_equal_length:
  assumes ex: "dict_to_tf_example env data dir lm ig = Inr ex"
    and objs: "data_objects data = Inr objs"
  shows "length (xmin_list ex) = length (filter (retained ig) objs)
       \<and> length (ymin_list ex) = length (filter (retained ig) objs)
       \<and> length (xmax_list ex) = length (filter (retained ig) objs)
       \<and> length (ymax_list ex) = length (filter (retained ig) objs)
       \<and> length (classes_text ex) = length (filter (retained ig) objs)
       \<and> length (classes ex) = length (filter (retained ig) objs)
       \<and> length (difficult_obj ex) = length (filter (retained ig) objs)
       \<and> length (truncated ex) = length (filter (retained ig) objs)
       \<and> length (poses ex) = length (filter (retained ig) objs)"
proof -
  from encoded_objects [OF ex objs]
  have "list_lengths ex = replicate 9 (length (filter (retained ig) objs))" by blast
  then show ?thesis by (simp add: list_lengths_def numeral_eq_Suc)
qed


lemma foldM_fails:
  assumes "obj \<in> set objs" and "\<And>st. \<exists>e. f st obj = Inl e"
  shows "\<exists>e. foldM f st objs = Inl e"
  using assms(1)
proof (induction objs arbitrary: st)
  case Nil
  then show ?case by simp
next
  case (Cons a objs)
  show ?case
  proof (cases "f st a")
    case (Inl e)
    then show ?thesis by simp
  next
    case (Inr s1)
    show ?thesis
    proof (cases "a = obj")
      case True
      with Inr assms(2) [of st] show ?thesis by simp
    next
      case False
      with Cons.prems have "obj \<in> set objs" by simp
      from Cons.IH [OF this, of s1] Inr show ?thesis by simp
    qed
  qed
qed

lemma not_Inr_is_Inl: "(\<And>y. m \<noteq> Inr y) \<Longrightarrow> \<exists>e. m = Inl e"
  by (cases m) auto

lemma object_step_unknown_label:
  assumes ret: "retained ig obj" and nm: "xget obj ''name'' = Inr (XText (Some nm))"
    and unk: "lm nm = None"
  shows "\<exists>e. object_step tf lm ig w h st obj = Inl e"
proof (rule not_Inr_is_Inl)
  fix st'
  show "object_step tf lm ig w h st obj \<noteq> Inr st'"
  proof
    assume "object_step tf lm ig w h st obj = Inr st'"
    from object_step_Inr [OF this] ret have "lm (object_name obj) \<noteq> None" by simp
    with nm unk show False by (simp add: object_name_def)
  qed
qed

lemma object_step_KeyError:
  assumes ret: "retained ig obj" and nm: "xget obj ''name'' = Inr (XText (Some nm))"
    and unk: "lm nm = None"
    and box: "box_fraction tf obj ''xmin'' w = Inr x0" "box_fraction tf obj ''ymin'' h = Inr y0"
      "box_fraction tf obj ''xmax'' w = Inr x1" "box_fraction tf obj ''ymax'' h = Inr y1"
  shows "object_step tf lm ig w h st obj = Inl (KeyError nm)"
  using nm unk box by (simp add: object_step_retained [OF ret] append_object_def)

lemma dict_to_tf_example_unknown_label:
  assumes objs: "data_objects data = Inr objs" and mem: "obj \<in> set objs"
    and ret: "retained ig obj" and nm: "xget obj ''name'' = Inr (XText (Some nm))"
    and unk: "lm nm = None"
  shows "\<exists>e. dict_to_tf_example env data dir lm ig = Inl e"
proof (rule not_Inr_is_Inl)
  fix ex
  show "dict_to_tf_example env data dir lm ig \<noteq> Inr ex"
  proof
    assume "dict_to_tf_example env data dir lm ig = Inr ex"
    from encoded_objects [OF this objs] mem ret have "lm (object_name obj) \<noteq> None" by blast
    with nm unk show False by (simp add: object_name_def)
  qed
qed

lemma write_examples_aborts:
  assumes "f \<in> set names" and "convert f = Inl e"
  shows "\<exists>written' e'. write_examples convert written names = (written', Some e')
           \<and> length written' < length written + length names"
  using assms(1)
proof (induction names arbitrary: written)
  case Nil
  then show ?case by simp
next
  case (Cons a names)
  show ?case
  proof (cases "convert a")
    case (Inl e0)
    then show ?thesis by simp
  next
    case (Inr ex)
    with assms(2) Cons.prems have "f \<in> set names" by auto
    from Cons.IH [OF this, of "written @ [ex]"] Inr show ?thesis by auto
  qed
qed

text \<open>
  Claim C6. When an annotation file of the run holds a retained object whose name is
  not a key of the label map, \<open>dict_to_tf_example\<close> raises and returns no record,
  the run ends with an exception before it has written a record for every file, and
  the exception of the object is the \<open>KeyError\<close> of the lookup whenever its four box
  corners convert.
\<close>

theorem unknown_label_fails_the_run:
  assumes rd: "gfile_read env (path_join annotations_dir f) = Some xml_str"
    and parse: "fromstring env xml_str = Some x"
    and data: "xget (recursive_parse_xml_to_dict x) ''annotation'' = Inr data"
    and inlist: "f \<in> set files_list"
    and objs: "data_objects data = Inr objs" and mem: "obj \<in> set objs"
    and ret: "retained ig obj" and nm: "xget obj ''name'' = Inr (XText (Some nm))"
    and unk: "lm nm = None"
  shows "(\<exists>e. dict_to_tf_example env data dir lm ig = Inl e)
       \<and> (\<exists>written e. create_tf_records_main env annotations_dir dir lm ig files_list = (written, Some e)
            \<and> length written < length files_list)
       \<and> (\<forall>w h st x0 y0 x1 y1.
             box_fraction (tofloat env) obj ''xmin'' w = Inr x0
           \<and> box_fraction (tofloat env) obj ''ymin'' h = Inr y0
           \<and> box_fraction (tofloat env) obj ''xmax'' w = Inr x1
           \<and> box_fraction (tofloat env) obj ''ymax'' h = Inr y1
           \<longrightarrow> object_step (tofloat env) lm ig w h st obj = Inl (KeyError nm))"
proof -
  from dict_to_tf_example_unknown_label [where lm = lm, OF objs mem ret nm unk]
  obtain e where e: "dict_to_tf_example env data dir lm ig = Inl e" by blast
  have "example_of_file env annotations_dir dir lm ig f = Inl e"
    using rd parse data e by (simp add: example_of_file_def)
  from write_examples_aborts
         [where convert = "example_of_file env annotations_dir dir lm ig" and written = "[]",
          OF inlist this]
  have run: "\<exists>written e. create_tf_records_main env annotations_dir dir lm ig files_list = (written, Some e)
            \<and> length written < length files_list"
    by (simp add: create_tf_records_main_def)
  from e run object_step_KeyError [where lm = lm, OF ret nm unk] show ?thesis by blast
qed


lemmas py_int_eval = py_int_def py_strip_def is_space_def is_digit_def digits_value_def digit_val_def

lemmas tf_eval = dict_to_tf_example_def example_tf_env_def
      example_label_map_def example_tofloat_def read_image_def path_join_def data_objects_def
      object_step_def append_object_def box_fraction_def no_objects_def

lemma example_objects_classified:
  "filter unspecified [example_object ''cat'' ''Unspecified'', example_object ''dog'' ''0'',
                       example_object ''cat'' ''1''] = [example_object ''cat'' ''Unspecified'']"
  "filter parsed_difficult [example_object ''cat'' ''Unspecified'', example_object ''dog'' ''0'',
                            example_object ''cat'' ''1''] = [example_object ''cat'' ''1'']"
  "filter (retained True) [example_object ''cat'' ''Unspecified'', example_object ''dog'' ''0'',
                           example_object ''cat'' ''1''] = [example_object ''dog'' ''0'']"
  "filter (retained False) [example_object ''cat'' ''Unspecified'', example_object ''dog'' ''0'',
                           example_object ''cat'' ''1'']
     = [example_object ''dog'' ''0'', example_object ''cat'' ''1'']"
  by (simp_all add: unspecified_def parsed_difficult_def retained_def example_object_def py_int_eval)

lemma example_data_objects: "data_objects (example_data objs) = Inr objs"
  by (simp add: data_objects_def example_data_def)

lemma example_encoding_ignoring_difficult:
  "dict_to_tf_example example_tf_env
     (example_data [example_object ''cat'' ''Unspecified'', example_object ''dog'' ''0'',
                    example_object ''cat'' ''1''])
     ''images'' example_label_map True =
   Inr \<lparr>xmin_list = [1 / 10], ymin_list = [1 / 10], xmax_list = [1 / 2], ymax_list = [1 / 2],
        classes = [2], classes_text = [''dog''], truncated = [0], poses = [''Unspecified''],
        difficult_obj = [0], image_height = 200, image_width = 100,
        image_filename = ''scan1.jpg'', image_source_id = ''scan1.jpg'',
        image_key_sha256 = ''digest'', image_encoded = ''JFIF'', image_format_tag = ''jpeg''\<rparr>"
  by (simp add: tf_eval example_data_def example_object_def py_int_eval)

lemma example_encoding_keeping_difficult:
  "dict_to_tf_example example_tf_env
     (example_data [example_object ''cat'' ''Unspecified'', example_object ''dog'' ''0'',
                    example_object ''cat'' ''1''])
     ''images'' example_label_map False =
   Inr \<lparr>xmin_list = [1 / 10, 1 / 10], ymin_list = [1 / 10, 1 / 10],
        xmax_list = [1 / 2, 1 / 2], ymax_list = [1 / 2, 1 / 2],
        classes = [2, 1], classes_text = [''dog'', ''cat''], truncated = [0, 0],
        poses = [''Unspecified'', ''Unspecified''],
        difficult_obj = [0, 1], image_height = 200, image_width = 100,
        image_filename = ''scan1.jpg'', image_source_id = ''scan1.jpg'',
        image_key_sha256 = ''digest'', image_encoded = ''JFIF'', image_format_tag = ''jpeg''\<rparr>"
  by (simp add: tf_eval example_data_def example_object_def py_int_eval)

theorem unspecified_objects_witness:
  "\<exists>ex. dict_to_tf_example example_tf_env
           (example_data [example_object ''cat'' ''Unspecified'', example_object ''dog'' ''0'',
                          example_object ''cat'' ''1''])
           ''images'' example_label_map True = Inr ex
      \<and> data_objects (example_data [example_object ''cat'' ''Unspecified'', example_object ''dog'' ''0'',
                          example_object ''cat'' ''1''])
          = Inr [example_object ''cat'' ''Unspecified'', example_object ''dog'' ''0'',
                 example_object ''cat'' ''1'']
      \<and> classes_text ex = [''dog''] \<and> difficult_obj ex = [0]
      \<and> length (classes_text ex) + length [example_object ''cat'' ''Unspecified'']
           + length [example_object ''cat'' ''1''] = (3::nat)"
proof -
  note e = example_encoding_ignoring_difficult
  note o = example_data_objects
           [of "[example_object ''cat'' ''Unspecified'', example_object ''dog'' ''0'',
                 example_object ''cat'' ''1'']"]
  note th = unspecified_objects_are_dropped [OF e o, unfolded example_objects_classified]
  from th have "classes_text (\<lparr>xmin_list = [1 / 10], ymin_list = [1 / 10], xmax_list = [1 / 2],
        ymax_list = [1 / 2], classes = [2], classes_text = [''dog''], truncated = [0],
        poses = [''Unspecified''], difficult_obj = [0], image_height = 200, image_width = 100,
        image_filename = ''scan1.jpg'', image_source_id = ''scan1.jpg'',
        image_key_sha256 = ''digest'', image_encoded = ''JFIF'', image_format_tag = ''jpeg''\<rparr> :: tf_example)
      = map object_name [example_object ''dog'' ''0'']"
    by blast
  then show ?thesis unfolding e using o by simp
qed

theorem parallel_lists_witness:
  "\<exists>ex. dict_to_tf_example example_tf_env
           (example_data [example_object ''cat'' ''Unspecified'', example_object ''dog'' ''0'',
                          example_object ''cat'' ''1''])
           ''images'' example_label_map False = Inr ex
      \<and> data_objects (example_data [example_object ''cat'' ''Unspecified'', example_object ''dog'' ''0'',
                          example_object ''cat'' ''1''])
          = Inr [example_object ''cat'' ''Unspecified'', example_object ''dog'' ''0'',
                 example_object ''cat'' ''1'']
      \<and> length (xmin_list ex) = 2 \<and> length (ymin_list ex) = 2 \<and> length (xmax_list ex) = 2
      \<and> length (ymax_list ex) = 2 \<and> length (classes_text ex) = 2 \<and> length (classes ex) = 2
      \<and> length (difficult_obj ex) = 2 \<and> length (truncated ex) = 2 \<and> length (poses ex) = 2"
proof -
  note e = example_encoding_keeping_difficult
  note o = example_data_objects
           [of "[example_object ''cat'' ''Unspecified'', example_object ''dog'' ''0'',
                 example_object ''cat'' ''1'']"]
  note th = parallel_lists_have_equal_length [OF e o, unfolded example_objects_classified]
  from th have "length (xmin_list (\<lparr>xmin_list = [1 / 10, 1 / 10], ymin_list = [1 / 10, 1 / 10],
        xmax_list = [1 / 2, 1 / 2], ymax_list = [1 / 2, 1 / 2],
        classes = [2, 1], classes_text = [''dog'', ''cat''], truncated = [0, 0],
        poses = [''Unspecified'', ''Unspecified''],
        difficult_obj = [0, 1], image_height = 200, image_width = 100,
        image_filename = ''scan1.jpg'', image_source_id = ''scan1.jpg'',
        image_key_sha256 = ''digest'', image_encoded = ''JFIF'', image_format_tag = ''jpeg''\<rparr> :: tf_example))
      = length [example_object ''dog'' ''0'', example_object ''cat'' ''1'']"
    by blast
  then show ?thesis unfolding e using o by simp
qed

lemma example_doc_value: "xml_value example_doc = example_data [example_object ''bird'' ''0'']"
  by (simp add: example_doc_def example_data_def example_object_def add_child_def)

theorem unknown_label_witness:
  "gfile_read example_tf_env (path_join ''annotations'' ''scan1.xml'') = Some (render example_doc)
   \<and> fromstring example_tf_env (render example_doc) = Some example_doc
   \<and> xget (recursive_parse_xml_to_dict example_doc) ''annotation'' = Inr (xml_value example_doc)
   \<and> ''scan1.xml'' \<in> set [''scan1.xml'']
   \<and> data_objects (xml_value example_doc) = Inr [example_object ''bird'' ''0'']
   \<and> retained False (example_object ''bird'' ''0'')
   \<and> xget (example_object ''bird'' ''0'') ''name'' = Inr (XText (Some ''bird''))
   \<and> example_label_map ''bird'' = None
   \<and> (\<exists>e. dict_to_tf_example example_tf_env (xml_value example_doc) ''images''
              example_label_map False = Inl e)
   \<and> (\<exists>written e. create_tf_records_main example_tf_env ''annotations'' ''images''
              example_label_map False [''scan1.xml''] = (written, Some e)
            \<and> length written < length [''scan1.xml''])
   \<and> object_step (tofloat example_tf_env) example_label_map False 100 200 no_objects
        (example_object ''bird'' ''0'') = Inl (KeyError ''bird'')"
proof -
  have rd: "gfile_read example_tf_env (path_join ''annotations'' ''scan1.xml'') = Some (render example_doc)"
    by (simp add: example_tf_env_def path_join_def)
  have parse: "fromstring example_tf_env (render example_doc) = Some example_doc"
    by (simp add: example_tf_env_def)
  have data: "xget (recursive_parse_xml_to_dict example_doc) ''annotation'' = Inr (xml_value example_doc)"
    by (simp add: recursive_parse_xml_to_dict_def example_doc_def)
  have inlist: "''scan1.xml'' \<in> set [''scan1.xml'']" by simp
  have objs: "data_objects (xml_value example_doc) = Inr [example_object ''bird'' ''0'']"
    by (simp add: example_doc_value example_data_objects)
  have mem: "example_object ''bird'' ''0'' \<in> set [example_object ''bird'' ''0'']" by simp
  have ret: "retained False (example_object ''bird'' ''0'')"
    by (simp add: retained_def example_object_def py_int_eval)
  have nm: "xget (example_object ''bird'' ''0'') ''name'' = Inr (XText (Some ''bird''))"
    by (simp add: example_object_def)
  have unk: "example_label_map ''bird'' = None" by (simp add: example_label_map_def)
  have box: "box_fraction (tofloat example_tf_env) (example_object ''bird'' ''0'') ''xmin'' 100 = Inr (1 / 10)
           \<and> box_fraction (tofloat example_tf_env) (example_object ''bird'' ''0'') ''ymin'' 200 = Inr (1 / 10)
           \<and> box_fraction (tofloat example_tf_env) (example_object ''bird'' ''0'') ''xmax'' 100 = Inr (1 / 2)
           \<and> box_fraction (tofloat example_tf_env) (example_object ''bird'' ''0'') ''ymax'' 200 = Inr (1 / 2)"
    by (simp add: box_fraction_def example_tf_env_def example_tofloat_def example_object_def py_int_eval)
  note th = unknown_label_fails_the_run
              [where lm = example_label_map and dir = "''images''", OF rd parse data inlist objs mem ret nm unk]
  from th box have "object_step (tofloat example_tf_env) example_label_map False 100 200 no_objects
        (example_object ''bird'' ''0'') = Inl (KeyError ''bird'')"
    by blast
  with th rd parse data inlist objs ret nm unk show ?thesis by blast
qed

section \<open>Properties of the converter's documents\<close>





























lemma object_element_text:
  "render (object_element frepr bbx_label (xmin, ymin, xmax, ymax)) =
     ''<object>'' @ nl
     @ tab @ ''<name>'' @ bbx_label @ ''</name>'' @ nl
     @ tab @ ''<pose>Unspecified</pose>'' @ nl
     @ tab @ ''<truncated>Unspecified</truncated>'' @ nl
     @ tab @ ''<difficult>Unspecified</difficult>'' @ nl
     @ tab @ ''<occluded>Unspecified</occluded>'' @ nl
     @ tab @ ''<bndbox>'' @ nl
     @ tab @ tab @ ''<xmin>'' @ py_str frepr xmin @ ''</xmin>'' @ nl
     @ tab @ tab @ ''<xmax>'' @ py_str frepr xmax @ ''</xmax>'' @ nl
     @ tab @ tab @ ''<ymin>'' @ py_str frepr ymin @ ''</ymin>'' @ nl
     @ tab @ tab @ ''<ymax>'' @ py_str frepr ymax @ ''</ymax>'' @ nl
     @ tab @ ''</bndbox>'' @ nl
     @ ''</object>'' @ nl"
  by (simp add: object_element_def)

lemma annotation_element_text:
  "render (annotation_element image_dir_folder_Name fileName filePath width height objects) =
     ''<annotation>'' @ nl @ ''<folder>'' @ image_dir_folder_Name @ ''</folder>'' @ nl
     @ ''<filename>'' @ fileName @ ''</filename>'' @ nl
     @ ''<path>'' @ filePath @ ''</path>'' @ nl
     @ ''<source>'' @ nl @ tab @ ''<database>Unknown</database>'' @ nl @ ''</source>'' @ nl
     @ ''<size>'' @ nl
     @ tab @ ''<width>'' @ str_int width @ ''</width>'' @ nl
     @ tab @ ''<height>'' @ str_int height @ ''</height>'' @ nl
     @ tab @ ''<depth>Unspecified</depth>'' @ nl
     @ ''</size>'' @ nl
     @ ''<segmented>Unspecified</segmented>'' @ nl
     @ concat (map render objects)
     @ ''</annotation>''"
  by (simp add: annotation_element_def)

end
